theory Spec2Isabelle
  imports Main "HOL-Library.Word" "HOL-Library.Sublist"
begin

section \<open>Python values\<close>

text \<open>
  The values that travel through the dispatcher are decoded JSON documents and whatever
  the backend returns. A float is kept as its IEEE-754 bit pattern: the only thing the
  code ever asks of one is whether it is zero. A dictionary is an association list that
  is read with \<open>map_of\<close>.
\<close>

datatype json =
    JNull
  | JBool bool
  | JInt int
  | JFloat "64 word"
  | JStr string
  | JArr "json list"
  | JObj "(string \<times> json) list"

text \<open>Truth value testing, as \<open>if x:\<close> does it.\<close>

fun py_truthy :: "json \<Rightarrow> bool" where
  "py_truthy JNull = False"
| "py_truthy (JBool b) = b"
| "py_truthy (JInt i) = (i \<noteq> 0)"
| "py_truthy (JFloat w) = (w \<noteq> 0 \<and> w \<noteq> 0x8000000000000000)"
| "py_truthy (JStr s) = (s \<noteq> [])"
| "py_truthy (JArr xs) = (xs \<noteq> [])"
| "py_truthy (JObj kvs) = (kvs \<noteq> [])"

text \<open>\<open>d.get(key)\<close>: the value, or \<open>None\<close> when the key is absent.\<close>

definition dict_get :: "(string \<times> json) list \<Rightarrow> string \<Rightarrow> json" where
  "dict_get kvs k = (case map_of kvs k of None \<Rightarrow> JNull | Some v \<Rightarrow> v)"

text \<open>
  A message text is either a literal or a format template together with the values
  that \<open>str.format\<close> substitutes into it.
\<close>

datatype py_text = Text string | Format string "json list"

text \<open>
  Exceptions. \<open>JSONRPCException code message\<close> stands for an instance of any
  subclass of \<open>JSONRPCException\<close>, with the two attributes the handler reads from it;
  the other constructors are exceptions that are not instances of that class. All of
  them are instances of \<open>Exception\<close>, the class the handler's \<open>except\<close> clause
  names; \<open>KeyboardInterrupt\<close>, \<open>SystemExit\<close> and \<open>GeneratorExit\<close>, which are
  not, are signals of the interpreter and not failures of a collaborator, and are left
  out.
\<close>

datatype py_exception =
    JSONRPCException int py_text
  | AttributeError string
  | TypeError string
  | ValueError py_text
  | OtherException string

fun is_JSONRPCException :: "py_exception \<Rightarrow> bool" where
  "is_JSONRPCException (JSONRPCException c m) = True"
| "is_JSONRPCException e = False"

definition InvalidRequest :: "string \<Rightarrow> py_text \<Rightarrow> py_exception" where
  "InvalidRequest cid message = JSONRPCException (- 32600) message"

definition MethodNotFound :: "string \<Rightarrow> py_text \<Rightarrow> py_exception" where
  "MethodNotFound cid message = JSONRPCException (- 32601) message"

definition InternalError :: "string \<Rightarrow> py_text \<Rightarrow> py_exception" where
  "InternalError cid message = JSONRPCException (- 32603) message"

definition ParseError :: "string \<Rightarrow> py_text \<Rightarrow> py_exception" where
  "ParseError cid message = JSONRPCException (- 32700) message"

section \<open>json_rpc.py: the item model\<close>

definition json_rpc_version_supported :: string where
  "json_rpc_version_supported = ''2.0''"

record RequestContext =
  ctx_cid :: string
  ctx_orig_message :: json
  ctx_message :: json

record ErrorCtx =
  err_cid :: string
  err_code :: int
  err_message :: py_text

text \<open>
  \<open>ErrorCtx.to_dict\<close> builds
  \<open>{'code': code, 'message': message, 'data': {'ctx': {'cid': cid}}}\<close>.
\<close>

record error_dict =
  ed_code :: int
  ed_message :: py_text
  ed_data_ctx_cid :: string

definition ErrorCtx_to_dict :: "ErrorCtx \<Rightarrow> error_dict" where
  "ErrorCtx_to_dict e =
     \<lparr>ed_code = err_code e, ed_message = err_message e, ed_data_ctx_cid = err_cid e\<rparr>"

text \<open>
  The identifier slot holds either the marker \<open>NotGiven\<close> or a value; \<open>None\<close> is the
  value \<open>JNull\<close>.
\<close>

datatype id_value = NotGiven | IdValue json

record ItemResponse =
  resp_id :: id_value
  resp_cid :: "string option"
  resp_error :: "ErrorCtx option"
  resp_result :: json

definition ItemResponse_init :: ItemResponse where
  "ItemResponse_init =
     \<lparr>resp_id = IdValue JNull, resp_cid = None, resp_error = None, resp_result = JNull\<rparr>"

text \<open>
  The envelope \<open>ItemResponse.to_dict\<close> returns: the keys \<open>jsonrpc\<close> and \<open>id\<close>, and
  one of \<open>result\<close> and \<open>error\<close>; an absent key is \<open>None\<close> here.
\<close>

record response_dict =
  rd_jsonrpc :: string
  rd_id :: id_value
  rd_result :: "json option"
  rd_error :: "error_dict option"

text \<open>
  With a falsy result the error branch calls \<open>self.error.to_dict()\<close>, which raises
  \<open>AttributeError\<close> while \<open>error\<close> is still \<open>None\<close>.
\<close>

definition to_dict :: "ItemResponse \<Rightarrow> py_exception + response_dict" where
  "to_dict self =
     (if py_truthy (resp_result self) then
        Inr \<lparr>rd_jsonrpc = json_rpc_version_supported, rd_id = resp_id self,
             rd_result = Some (resp_result self), rd_error = None\<rparr>
      else
        (case resp_error self of
           None \<Rightarrow> Inl (AttributeError ''to_dict'')
         | Some e \<Rightarrow>
             Inr \<lparr>rd_jsonrpc = json_rpc_version_supported, rd_id = resp_id self,
                  rd_result = None, rd_error = Some (ErrorCtx_to_dict e)\<rparr>))"

record JSONRPCItem =
  item_jsonrpc :: json
  item_method :: json
  item_params :: json
  item_id :: id_value
  item_needs_response :: bool

text \<open>
  \<open>JSONRPCItem.from_dict\<close> only calls \<open>item.get\<close>; anything that is not a dictionary
  has no such attribute.
\<close>

definition from_dict :: "json \<Rightarrow> py_exception + JSONRPCItem" where
  "from_dict item =
     (case item of
        JObj kvs \<Rightarrow>
          (let out_id = (case map_of kvs ''id'' of None \<Rightarrow> NotGiven | Some v \<Rightarrow> IdValue v)
           in Inr \<lparr>item_jsonrpc = dict_get kvs ''jsonrpc'',
                   item_method = dict_get kvs ''method'',
                   item_params = dict_get kvs ''params'',
                   item_id = out_id,
                   item_needs_response = (out_id \<noteq> NotGiven)\<rparr>)
      | _ \<Rightarrow> Inl (AttributeError ''get''))"

section \<open>json_rpc.py: the handler\<close>

text \<open>
  The handler holds its configuration and the function that invokes a service. Of
  \<open>config['service_whitelist']\<close> only the membership test is used, so the collection is
  kept as that test: it answers, or raises (a set does, on an unhashable method). The
  backend is a function of the method, the parameters and its own state \<open>'s\<close>: it
  returns a value or raises, and leaves a new state behind. The call to
  \<open>logger.warn\<close> writes a log line and has no part in what is returned.
\<close>

record 's JSONRPCHandler =
  config_name :: string
  service_whitelist :: "json \<Rightarrow> py_exception + bool"
  invoke_func :: "json \<Rightarrow> json \<Rightarrow> 's \<Rightarrow> (py_exception + json) \<times> 's"

definition can_handle :: "'s JSONRPCHandler \<Rightarrow> json \<Rightarrow> py_exception + bool" where
  "can_handle self method = service_whitelist self method"

text \<open>
  The body of the \<open>try\<close> block of \<open>_handle_one_item\<close>. It ends with the value
  returned or the exception raised, the response object \<open>out\<close> as it stands at that
  moment, and the state of the backend.
\<close>

definition handle_one_item_try ::
  "'s JSONRPCHandler \<Rightarrow> string \<Rightarrow> json \<Rightarrow> json \<Rightarrow> 's
     \<Rightarrow> (py_exception + response_dict option) \<times> ItemResponse \<times> 's" where
  "handle_one_item_try self cid message orig_message s =
     (let out = ItemResponse_init in
      case from_dict message of
        Inl e \<Rightarrow> (Inl e, out, s)
      | Inr item \<Rightarrow>
          (let out = out\<lparr>resp_id := item_id item\<rparr> in
           if item_jsonrpc item \<noteq> JStr json_rpc_version_supported then
             (Inl (InvalidRequest cid
                (Format ''Unsupported JSON-RPC version `{}` in `{}`''
                   [item_jsonrpc item, orig_message])), out, s)
           else
             (case can_handle self (item_method item) of
                Inl e \<Rightarrow> (Inl e, out, s)
              | Inr False \<Rightarrow>
                  (Inl (MethodNotFound cid
                     (Format ''Method not supported `{}` in `{}`''
                        [item_method item, orig_message])), out, s)
              | Inr True \<Rightarrow>
                  (case invoke_func self (item_method item) (item_params item) s of
                     (Inl e, s') \<Rightarrow> (Inl e, out, s')
                   | (Inr service_response, s') \<Rightarrow>
                       (let out = out\<lparr>resp_result := service_response\<rparr> in
                        if item_needs_response item then
                          (case to_dict out of
                             Inl e \<Rightarrow> (Inl e, out, s')
                           | Inr d \<Rightarrow> (Inr (Some d), out, s'))
                        else (Inr None, out, s'))))))"

text \<open>The \<open>except Exception as e\<close> block.\<close>

definition handle_one_item_except ::
  "string \<Rightarrow> ItemResponse \<Rightarrow> py_exception \<Rightarrow> py_exception + response_dict" where
  "handle_one_item_except cid out e =
     (let (code, message) =
            (case e of
               JSONRPCException c m \<Rightarrow> (c, m)
             | _ \<Rightarrow> (- 32000, Text ''Message could not be handled''));
          error_ctx = \<lparr>err_cid = cid, err_code = code, err_message = message\<rparr>;
          out = out\<lparr>resp_error := Some error_ctx\<rparr>
      in to_dict out)"

text \<open>
  \<open>_handle_one_item\<close>: \<open>Inr None\<close> is the return value \<open>None\<close>, \<open>Inr (Some d)\<close> an
  envelope, \<open>Inl e\<close> an exception that leaves the function.
\<close>

definition handle_one_item_impl ::
  "'s JSONRPCHandler \<Rightarrow> string \<Rightarrow> json \<Rightarrow> json \<Rightarrow> 's
     \<Rightarrow> (py_exception + response_dict option) \<times> 's" where
  "handle_one_item_impl self cid message orig_message s =
     (case handle_one_item_try self cid message orig_message s of
        (Inr r, out, s') \<Rightarrow> (Inr r, s')
      | (Inl e, out, s') \<Rightarrow>
          (case handle_one_item_except cid out e of
             Inl e' \<Rightarrow> (Inl e', s')
           | Inr d \<Rightarrow> (Inr (Some d), s')))"

definition handle_one_item ::
  "'s JSONRPCHandler \<Rightarrow> RequestContext \<Rightarrow> 's
     \<Rightarrow> (py_exception + response_dict option) \<times> 's" where
  "handle_one_item self ctx s =
     handle_one_item_impl self (ctx_cid ctx) (ctx_message ctx) (ctx_orig_message ctx) s"

text \<open>
  The loop of \<open>handle_list\<close>: every result is appended to \<open>out\<close>; an exception that
  left \<open>_handle_one_item\<close> would end the loop.
\<close>

fun handle_list_loop ::
  "'s JSONRPCHandler \<Rightarrow> string \<Rightarrow> json \<Rightarrow> json list \<Rightarrow> response_dict option list \<Rightarrow> 's
     \<Rightarrow> (py_exception + response_dict option list) \<times> 's" where
  "handle_list_loop self cid orig_message [] out s = (Inr out, s)"
| "handle_list_loop self cid orig_message (item # rest) out s =
     (case handle_one_item_impl self cid item orig_message s of
        (Inl e, s') \<Rightarrow> (Inl e, s')
      | (Inr r, s') \<Rightarrow> handle_list_loop self cid orig_message rest (out @ [r]) s')"

text \<open>
  What \<open>for item in x\<close> runs over: the elements of a list, the characters of a
  string, the keys of a dictionary; other values are not iterable.
\<close>

definition py_iter :: "json \<Rightarrow> py_exception + json list" where
  "py_iter x =
     (case x of
        JArr xs \<Rightarrow> Inr xs
      | JStr s \<Rightarrow> Inr (map (\<lambda>c. JStr [c]) s)
      | JObj kvs \<Rightarrow> Inr (map JStr (remdups (map fst kvs)))
      | _ \<Rightarrow> Inl (TypeError ''not iterable''))"

definition handle_list ::
  "'s JSONRPCHandler \<Rightarrow> RequestContext \<Rightarrow> 's
     \<Rightarrow> (py_exception + response_dict option list) \<times> 's" where
  "handle_list self ctx s =
     (case py_iter (ctx_message ctx) of
        Inl e \<Rightarrow> (Inl e, s)
      | Inr items \<Rightarrow>
          handle_list_loop self (ctx_cid ctx) (ctx_orig_message ctx) items [] s)"

text \<open>\<open>handle\<close> returns one item's result, or the list of a batch.\<close>

datatype handle_result = One "response_dict option" | Many "response_dict option list"

definition handle ::
  "'s JSONRPCHandler \<Rightarrow> RequestContext \<Rightarrow> 's \<Rightarrow> (py_exception + handle_result) \<times> 's" where
  "handle self ctx s =
     (case ctx_message ctx of
        JArr items \<Rightarrow>
          (case handle_list self ctx s of
             (Inl e, s') \<Rightarrow> (Inl e, s')
           | (Inr out, s') \<Rightarrow> (Inr (Many out), s'))
      | _ \<Rightarrow>
          (case handle_one_item self ctx s of
             (Inl e, s') \<Rightarrow> (Inl e, s')
           | (Inr r, s') \<Rightarrow> (Inr (One r), s')))"

text \<open>The error code an outcome carries, if it is an envelope with an error.\<close>

definition error_code_of :: "py_exception + response_dict option \<Rightarrow> int option" where
  "error_code_of r =
     (case r of
        Inr (Some d) \<Rightarrow> map_option ed_code (rd_error d)
      | _ \<Rightarrow> None)"

section \<open>user_search.py: ordering of the user search\<close>

text \<open>
  The clauses \<open>asc(column)\<close> and \<open>desc(column)\<close> of the query builder are kept as
  terms. An object is the dictionary of the attributes its \<open>__init__\<close> assigns, so
  that reading an attribute that was never assigned raises \<open>AttributeError\<close>.
\<close>

datatype order_clause = Asc string | Desc string

datatype py_attr =
    AStr string
  | ASet "string list"
  | ATuple "order_clause list"
  | AList "order_clause list"

type_synonym py_object = "(string \<times> py_attr) list"

definition getattr :: "py_object \<Rightarrow> string \<Rightarrow> py_exception + py_attr" where
  "getattr obj name =
     (case map_of obj name of
        None \<Rightarrow> Inl (AttributeError name)
      | Some v \<Rightarrow> Inr v)"

definition OrderBy_init :: py_object where
  "OrderBy_init =
     [(''asc'', AStr ''asc''),
      (''desc'', AStr ''desc''),
      (''dir_allowed'', ASet [''asc'', ''desc'']),
      (''out_columns_allowed'',
         ASet [''display_name'', ''username'', ''sign_up_time'', ''user_id'']),
      (''default'',
         ATuple [Asc ''display_name'', Asc ''username'', Asc ''sign_up_time'',
                 Asc ''user_id''])]"

text \<open>
  Of \<open>SSOSearch\<close> the ordering code reads \<open>self.order_by\<close> only; the other
  attributes hold columns of the ORM model.
\<close>

record SSOSearch =
  ss_order_by :: py_object

definition SSOSearch_init :: SSOSearch where
  "SSOSearch_init = \<lparr>ss_order_by = OrderBy_init\<rparr>"

text \<open>
  \<open>x in c\<close>: membership in a set hashes \<open>x\<close>, which a list or a dictionary does not
  support; in a string it is the substring test; a tuple of clauses compares \<open>x\<close> with
  a clause, and such a comparison has no truth value.
\<close>

definition py_in :: "json \<Rightarrow> py_attr \<Rightarrow> py_exception + bool" where
  "py_in x c =
     (case c of
        ASet xs \<Rightarrow>
          (case x of
             JStr s \<Rightarrow> Inr (s \<in> set xs)
           | JArr ys \<Rightarrow> Inl (TypeError ''unhashable type'')
           | JObj kvs \<Rightarrow> Inl (TypeError ''unhashable type'')
           | _ \<Rightarrow> Inr False)
      | AStr t \<Rightarrow>
          (case x of
             JStr s \<Rightarrow> Inr (sublist s t)
           | _ \<Rightarrow> Inl (TypeError ''in <string> requires string as left operand''))
      | ATuple cs \<Rightarrow>
          (if cs = [] then Inr False
           else Inl (TypeError ''Boolean value of this clause is not defined''))
      | AList cs \<Rightarrow>
          (if cs = [] then Inr False
           else Inl (TypeError ''Boolean value of this clause is not defined'')))"

definition py_eq_attr :: "json \<Rightarrow> py_attr \<Rightarrow> bool" where
  "py_eq_attr x a = (case (x, a) of (JStr s, AStr t) \<Rightarrow> s = t | _ \<Rightarrow> False)"

text \<open>\<open>d.items()\<close>: one pair per key.\<close>

definition dict_items :: "(string \<times> json) list \<Rightarrow> (string \<times> json) list" where
  "dict_items kvs = map (\<lambda>k. (k, dict_get kvs k)) (remdups (map fst kvs))"

text \<open>
  The loop of \<open>_get_order_by\<close>. An item that is no dictionary has no \<open>items\<close>;
  \<open>len(items[0]) != 2\<close> never holds for a key and its value, which leaves the test on
  the number of pairs.
\<close>

fun get_order_by_loop ::
  "py_object \<Rightarrow> json list \<Rightarrow> order_clause list \<Rightarrow> py_exception + order_clause list" where
  "get_order_by_loop order_by [] out = Inr out"
| "get_order_by_loop order_by (item # rest) out =
     (case item of
        JObj kvs \<Rightarrow>
          (case dict_items kvs of
             [(column, dir)] \<Rightarrow>
               (case getattr order_by ''columns_allowed'' of
                  Inl e \<Rightarrow> Inl e
                | Inr columns_allowed \<Rightarrow>
                    (case py_in (JStr column) columns_allowed of
                       Inl e \<Rightarrow> Inl e
                     | Inr False \<Rightarrow>
                         Inl (ValueError (Format ''Invalid order_by column `{}`'' [JStr column]))
                     | Inr True \<Rightarrow>
                         (case getattr order_by ''dir_allowed'' of
                            Inl e \<Rightarrow> Inl e
                          | Inr dir_allowed \<Rightarrow>
                              (case py_in dir dir_allowed of
                                 Inl e \<Rightarrow> Inl e
                               | Inr False \<Rightarrow>
                                   Inl (ValueError (Format ''Invalid order_by dir `{}`'' [dir]))
                               | Inr True \<Rightarrow>
                                   (case getattr order_by ''asc'' of
                                      Inl e \<Rightarrow> Inl e
                                    | Inr asc \<Rightarrow>
                                        get_order_by_loop order_by rest
                                          (out @ [(if py_eq_attr dir asc then Asc else Desc)
                                                    column]))))))
           | _ \<Rightarrow> Inl (ValueError (Format ''Invalid order_by config `{}`'' [item])))
      | _ \<Rightarrow> Inl (AttributeError ''items''))"

definition get_order_by :: "SSOSearch \<Rightarrow> json \<Rightarrow> py_exception + order_clause list" where
  "get_order_by self order_by =
     (case py_iter order_by of
        Inl e \<Rightarrow> Inl e
      | Inr items \<Rightarrow> get_order_by_loop (ss_order_by self) items [])"

text \<open>
  \<open>search\<close>. The WHERE clause is built by \<open>_get_where\<close> out of predicates on the ORM
  columns, and the query is run by \<open>util_search\<close>; both work on the database layer and
  are taken as they come: \<open>get_where\<close> returns a clause or raises, \<open>util_search\<close>
  receives the configuration, the session, the ordering and the clause.
\<close>

definition search ::
  "((string \<times> json) list \<Rightarrow> py_exception + 'w)
     \<Rightarrow> ((string \<times> json) list \<Rightarrow> 'n \<Rightarrow> py_attr \<Rightarrow> 'w \<Rightarrow> py_exception + 'r)
     \<Rightarrow> SSOSearch \<Rightarrow> 'n \<Rightarrow> (string \<times> json) list \<Rightarrow> py_exception + 'r" where
  "search get_where util_search self session config =
     (case get_where config of
        Inl e \<Rightarrow> Inl e
      | Inr where_clause \<Rightarrow>
          (let order_by = dict_get config ''order_by'' in
           case (if py_truthy order_by then
                   (case get_order_by self order_by of
                      Inl e \<Rightarrow> Inl e
                    | Inr out \<Rightarrow> Inr (AList out))
                 else getattr (ss_order_by self) ''default'') of
             Inl e \<Rightarrow> Inl e
           | Inr order_by \<Rightarrow> util_search config session order_by where_clause))"

section \<open>Concrete collaborators\<close>

text \<open>
  A handler whose backend counts its invocations: the method \<open>boom\<close> raises, \<open>zero\<close>
  returns 0, \<open>internal\<close> raises \<open>InternalError\<close>, and any other method returns 42
  plus the number of earlier invocations.
\<close>

definition demo_invoke :: "json \<Rightarrow> json \<Rightarrow> nat \<Rightarrow> (py_exception + json) \<times> nat" where
  "demo_invoke method params n =
     (if method = JStr ''boom'' then (Inl (OtherException ''disk /dev/sda1 is full''), Suc n)
      else if method = JStr ''internal''
        then (Inl (InternalError ''backend'' (Text ''no such table'')), Suc n)
      else if method = JStr ''zero'' then (Inr (JInt 0), Suc n)
      else (Inr (JInt (42 + int n)), Suc n))"

definition demo_whitelist :: "json \<Rightarrow> py_exception + bool" where
  "demo_whitelist method =
     Inr (method \<in> set [JStr ''a'', JStr ''boom'', JStr ''zero'', JStr ''internal''])"

definition demo_handler :: "nat JSONRPCHandler" where
  "demo_handler =
     \<lparr>config_name = ''demo'', service_whitelist = demo_whitelist, invoke_func = demo_invoke\<rparr>"

definition demo_request :: "string \<Rightarrow> string \<Rightarrow> json" where
  "demo_request version method =
     JObj [(''jsonrpc'', JStr version), (''method'', JStr method), (''id'', JInt 7)]"

definition demo_notification :: "string \<Rightarrow> string \<Rightarrow> json" where
  "demo_notification version method =
     JObj [(''jsonrpc'', JStr version), (''method'', JStr method)]"

section \<open>Evaluation of the definitions\<close>

lemmas demo_defs =
  demo_handler_def demo_invoke_def demo_whitelist_def demo_request_def demo_notification_def
  InternalError_def

lemmas handler_defs =
  handle_one_item_impl_def handle_one_item_try_def handle_one_item_except_def
  from_dict_def to_dict_def dict_get_def can_handle_def ItemResponse_init_def
  ErrorCtx_to_dict_def InvalidRequest_def MethodNotFound_def json_rpc_version_supported_def

section \<open>The per-item boundary\<close>

text \<open>
  What the \<open>except\<close> block returns, and what the \<open>try\<close> block leaves behind when
  it raises: the result slot is falsy at that moment, so that serialising the response
  once the error is set takes the error branch and cannot raise again.
\<close>

lemma except_returns:
  "\<exists>d. handle_one_item_except cid out e = Inr d"
  by (simp add: handle_one_item_except_def to_dict_def Let_def split: py_exception.splits)

lemma try_failure_result_falsy:
  "handle_one_item_try self cid message orig s = (Inl e, out, s') \<Longrightarrow> \<not> py_truthy (resp_result out)"
  by (auto simp: handle_one_item_try_def ItemResponse_init_def to_dict_def Let_def
      split: sum.splits bool.splits prod.splits if_splits option.splits)

lemma except_envelope:
  "\<not> py_truthy (resp_result out) \<Longrightarrow>
   handle_one_item_except cid out e =
     Inr \<lparr>rd_jsonrpc = ''2.0'', rd_id = resp_id out, rd_result = None,
          rd_error = Some \<lparr>ed_code = (case e of JSONRPCException c m \<Rightarrow> c | _ \<Rightarrow> - 32000),
                           ed_message = (case e of JSONRPCException c m \<Rightarrow> m
                                         | _ \<Rightarrow> Text ''Message could not be handled''),
                           ed_data_ctx_cid = cid\<rparr>\<rparr>"
  by (simp add: handle_one_item_except_def to_dict_def ErrorCtx_to_dict_def Let_def
      json_rpc_version_supported_def split: py_exception.splits)

lemma impl_returns:
  "\<exists>r s'. handle_one_item_impl self cid message orig s = (Inr r, s')"
proof (cases "handle_one_item_try self cid message orig s")
  case (fields r out s')
  show ?thesis
  proof (cases r)
    case (Inl e)
    obtain d where "handle_one_item_except cid out e = Inr d"
      using except_returns by blast
    with fields Inl show ?thesis by (simp add: handle_one_item_impl_def)
  next
    case (Inr v)
    with fields show ?thesis by (simp add: handle_one_item_impl_def)
  qed
qed

lemma impl_of_try_failure:
  assumes "handle_one_item_try self cid message orig s = (Inl e, out, s')"
  shows "handle_one_item_impl self cid message orig s =
     (Inr (Some \<lparr>rd_jsonrpc = ''2.0'', rd_id = resp_id out, rd_result = None,
          rd_error = Some \<lparr>ed_code = (case e of JSONRPCException c m \<Rightarrow> c | _ \<Rightarrow> - 32000),
                           ed_message = (case e of JSONRPCException c m \<Rightarrow> m
                                         | _ \<Rightarrow> Text ''Message could not be handled''),
                           ed_data_ctx_cid = cid\<rparr>\<rparr>), s')"
  using assms except_envelope [OF try_failure_result_falsy [OF assms], of cid e]
  by (simp add: handle_one_item_impl_def)

lemma impl_of_try_success:
  "handle_one_item_try self cid message orig s = (Inr r, out, s') \<Longrightarrow>
   handle_one_item_impl self cid message orig s = (Inr r, s')"
  by (simp add: handle_one_item_impl_def)


lemma try_bad_version:
  "dict_get kvs ''jsonrpc'' \<noteq> JStr ''2.0'' \<Longrightarrow>
   handle_one_item_try self cid (JObj kvs) orig s =
     (Inl (InvalidRequest cid
        (Format ''Unsupported JSON-RPC version `{}` in `{}`'' [dict_get kvs ''jsonrpc'', orig])),
      ItemResponse_init\<lparr>resp_id :=
        (case map_of kvs ''id'' of None \<Rightarrow> NotGiven | Some v \<Rightarrow> IdValue v)\<rparr>, s)"
  by (simp add: handle_one_item_try_def from_dict_def json_rpc_version_supported_def Let_def)

lemma try_invoked:
  assumes "dict_get kvs ''jsonrpc'' = JStr ''2.0''"
    and "can_handle self (dict_get kvs ''method'') = Inr True"
    and "invoke_func self (dict_get kvs ''method'') (dict_get kvs ''params'') s = (r, s')"
  shows "handle_one_item_try self cid (JObj kvs) orig s =
     (let out = ItemResponse_init\<lparr>resp_id :=
        (case map_of kvs ''id'' of None \<Rightarrow> NotGiven | Some v \<Rightarrow> IdValue v)\<rparr> in
      case r of
        Inl e \<Rightarrow> (Inl e, out, s')
      | Inr v \<Rightarrow>
          (let out = out\<lparr>resp_result := v\<rparr> in
           if map_of kvs ''id'' = None then (Inr None, out, s')
           else (case to_dict out of
                   Inl e \<Rightarrow> (Inl e, out, s')
                 | Inr d \<Rightarrow> (Inr (Some d), out, s'))))"
  using assms
  by (cases r)
    (auto simp: handle_one_item_try_def from_dict_def json_rpc_version_supported_def Let_def
      split: option.splits)

lemma try_keeps_id:
  "handle_one_item_try self cid (JObj kvs) orig s = (r, out, s') \<Longrightarrow>
   resp_id out = (case map_of kvs ''id'' of None \<Rightarrow> NotGiven | Some v \<Rightarrow> IdValue v)"
  by (auto simp: handle_one_item_try_def from_dict_def Let_def ItemResponse_init_def
      split: sum.splits bool.splits prod.splits if_splits option.splits)

lemma try_with_id_envelope:
  "handle_one_item_try self cid (JObj kvs) orig s = (Inr r, out, s') \<Longrightarrow>
   map_of kvs ''id'' = Some v \<Longrightarrow> \<exists>d. r = Some d \<and> rd_id d = IdValue v"
  by (auto simp: handle_one_item_try_def from_dict_def Let_def ItemResponse_init_def to_dict_def
      split: sum.splits bool.splits prod.splits if_splits option.splits)

lemma loop_returns:
  "\<exists>rs s'. handle_list_loop self cid orig items out s = (Inr (out @ rs), s')
      \<and> length rs = length items"
proof (induction items arbitrary: out s)
  case Nil
  show ?case by simp
next
  case (Cons x rest)
  obtain r s1 where one: "handle_one_item_impl self cid x orig s = (Inr r, s1)"
    using impl_returns [of self cid x orig s] by auto
  obtain rs s' where rest: "handle_list_loop self cid orig rest (out @ [r]) s1
      = (Inr ((out @ [r]) @ rs), s')" and len: "length rs = length rest"
    using Cons.IH [of "out @ [r]" s1] by auto
  have "handle_list_loop self cid orig (x # rest) out s = (Inr (out @ (r # rs)), s')"
    using one rest by simp
  with len show ?case by (intro exI [of _ "r # rs"] exI [of _ s']) simp
qed

lemma loop_split:
  "handle_list_loop self cid orig (xs @ ys) out s =
     (case handle_list_loop self cid orig xs out s of
        (Inl e, s1) \<Rightarrow> (Inl e, s1)
      | (Inr rs, s1) \<Rightarrow> handle_list_loop self cid orig ys rs s1)"
  by (induction xs arbitrary: out s) (auto split: prod.splits sum.splits)

lemma loop_nth:
  assumes i: "i < length items"
    and whole: "handle_list_loop self cid orig items [] s = (Inr rs, s')"
  shows "fst (handle_one_item_impl self cid (items ! i) orig
            (snd (handle_list_loop self cid orig (take i items) [] s))) = Inr (rs ! i)"
proof -
  obtain ps s1 where pre: "handle_list_loop self cid orig (take i items) [] s = (Inr ps, s1)"
    and plen: "length ps = length (take i items)"
    using loop_returns [of self cid orig "take i items" "[]" s] by auto
  obtain r s2 where one: "handle_one_item_impl self cid (items ! i) orig s1 = (Inr r, s2)"
    using impl_returns [of self cid "items ! i" orig s1] by auto
  obtain qs s3 where post: "handle_list_loop self cid orig (drop (Suc i) items) (ps @ [r]) s2
      = (Inr ((ps @ [r]) @ qs), s3)"
    using loop_returns [of self cid orig "drop (Suc i) items" "ps @ [r]" s2] by auto
  have "items = take i items @ (items ! i # drop (Suc i) items)"
    using i by (simp add: id_take_nth_drop)
  then have "handle_list_loop self cid orig items [] s
      = handle_list_loop self cid orig (take i items @ (items ! i # drop (Suc i) items)) [] s"
    by simp
  also have "\<dots> = (Inr ((ps @ [r]) @ qs), s3)"
    using pre one post by (simp add: loop_split)
  finally have "rs = (ps @ [r]) @ qs"
    using whole by simp
  moreover have "length ps = i"
    using plen i by simp
  ultimately have "rs ! i = r"
    by (simp add: nth_append)
  with pre one show ?thesis by simp
qed

lemma handle_returns:
  "\<exists>r s'. handle self ctx s = (Inr r, s')"
proof (cases "\<exists>items. ctx_message ctx = JArr items")
  case True
  then obtain items where m: "ctx_message ctx = JArr items" by blast
  obtain rs s' where
    "handle_list_loop self (ctx_cid ctx) (ctx_orig_message ctx) items [] s = (Inr rs, s')"
    using loop_returns [of self "ctx_cid ctx" "ctx_orig_message ctx" items "[]" s] by auto
  with m show ?thesis by (simp add: handle_def handle_list_def py_iter_def)
next
  case False
  obtain r s' where
    "handle_one_item_impl self (ctx_cid ctx) (ctx_message ctx) (ctx_orig_message ctx) s
       = (Inr r, s')"
    using impl_returns [of self "ctx_cid ctx" "ctx_message ctx" "ctx_orig_message ctx" s]
    by auto
  with False show ?thesis
    by (cases "ctx_message ctx") (simp_all add: handle_def handle_one_item_def)
qed

section \<open>Claims about the JSON-RPC handler\<close>

text \<open>
  A batch of four run through \<open>handle\<close>: an unsupported version, a notification, a
  request whose backend raises and a request that succeeds.
\<close>

lemma handle_batch_example:
  "handle demo_handler
     \<lparr>ctx_cid = ''c1'', ctx_orig_message = JStr ''raw'',
      ctx_message = JArr [demo_request ''1.0'' ''a'', demo_notification ''2.0'' ''a'',
                          demo_request ''2.0'' ''boom'', demo_request ''2.0'' ''a'']\<rparr> 0
   = (Inr (Many
       [Some \<lparr>rd_jsonrpc = ''2.0'', rd_id = IdValue (JInt 7), rd_result = None,
          rd_error = Some \<lparr>ed_code = - 32600,
            ed_message = Format ''Unsupported JSON-RPC version `{}` in `{}`''
                           [JStr ''1.0'', JStr ''raw''],
            ed_data_ctx_cid = ''c1''\<rparr>\<rparr>,
        None,
        Some \<lparr>rd_jsonrpc = ''2.0'', rd_id = IdValue (JInt 7), rd_result = None,
          rd_error = Some \<lparr>ed_code = - 32000,
            ed_message = Text ''Message could not be handled'',
            ed_data_ctx_cid = ''c1''\<rparr>\<rparr>,
        Some \<lparr>rd_jsonrpc = ''2.0'', rd_id = IdValue (JInt 7), rd_result = Some (JInt 44),
          rd_error = None\<rparr>]), 3)"
  by (simp add: handle_def handle_list_def py_iter_def handler_defs demo_defs)

text \<open>
  Claim C1. For a batch (\<open>ctx.message\<close> is a list) \<open>handle\<close> returns a list with one
  entry per input item, in input order, \<open>None\<close> entries of successful notifications
  included. The entry at position \<open>i\<close> is what \<open>_handle_one_item\<close> returns for item
  \<open>i\<close> alone, with the backend in the state the earlier items left it in: it is
  settled by that item and the collaborators, and no failure of another item removes,
  replaces or cuts off an entry.
\<close>

theorem handle_batch_positional:
  assumes "ctx_message ctx = JArr items"
  shows "\<exists>out s'. handle self ctx s = (Inr (Many out), s')
     \<and> length out = length items
     \<and> (\<forall>i<length items.
          fst (handle_one_item_impl self (ctx_cid ctx) (items ! i) (ctx_orig_message ctx)
                 (snd (handle self (ctx\<lparr>ctx_message := JArr (take i items)\<rparr>) s)))
            = Inr (out ! i))"
proof -
  obtain rs s' where whole:
    "handle_list_loop self (ctx_cid ctx) (ctx_orig_message ctx) items [] s = (Inr rs, s')"
    and len: "length rs = length items"
    using loop_returns [of self "ctx_cid ctx" "ctx_orig_message ctx" items "[]" s] by auto
  have h: "handle self ctx s = (Inr (Many rs), s')"
    using assms whole by (simp add: handle_def handle_list_def py_iter_def)
  have "fst (handle_one_item_impl self (ctx_cid ctx) (items ! i) (ctx_orig_message ctx)
                 (snd (handle self (ctx\<lparr>ctx_message := JArr (take i items)\<rparr>) s)))
            = Inr (rs ! i)" if "i < length items" for i
  proof -
    have "snd (handle self (ctx\<lparr>ctx_message := JArr (take i items)\<rparr>) s)
        = snd (handle_list_loop self (ctx_cid ctx) (ctx_orig_message ctx) (take i items) [] s)"
      by (simp add: handle_def handle_list_def py_iter_def split: prod.splits sum.splits)
    then show ?thesis
      using loop_nth [OF that whole] by simp
  qed
  with h len show ?thesis by blast
qed

text \<open>
  The theorem at a batch of three: a request with an unsupported version, a
  notification and a request; the third entry is the one the last request yields.
\<close>

theorem handle_batch_positional_witness:
  "\<exists>out s'.
     handle demo_handler
       \<lparr>ctx_cid = ''c1'', ctx_orig_message = JStr ''raw'',
        ctx_message = JArr [demo_request ''1.0'' ''a'', demo_notification ''2.0'' ''a'',
                            demo_request ''2.0'' ''a'']\<rparr> 0 = (Inr (Many out), s')
     \<and> length out = 3
     \<and> fst (handle_one_item_impl demo_handler ''c1'' (demo_request ''2.0'' ''a'') (JStr ''raw'')
          (snd (handle demo_handler
             \<lparr>ctx_cid = ''c1'', ctx_orig_message = JStr ''raw'',
              ctx_message = JArr [demo_request ''1.0'' ''a'', demo_notification ''2.0'' ''a'']\<rparr>
             0))) = Inr (out ! 2)"
proof -
  let ?items = "[demo_request ''1.0'' ''a'', demo_notification ''2.0'' ''a'',
                 demo_request ''2.0'' ''a'']"
  let ?ctx = "\<lparr>ctx_cid = ''c1'', ctx_orig_message = JStr ''raw'', ctx_message = JArr ?items\<rparr>"
  have m: "ctx_message ?ctx = JArr ?items" by simp
  obtain out s' where h: "handle demo_handler ?ctx 0 = (Inr (Many out), s')"
    and len: "length out = length ?items"
    and all: "\<forall>i<length ?items.
          fst (handle_one_item_impl demo_handler (ctx_cid ?ctx) (?items ! i) (ctx_orig_message ?ctx)
                 (snd (handle demo_handler (?ctx\<lparr>ctx_message := JArr (take i ?items)\<rparr>) 0)))
            = Inr (out ! i)"
    using handle_batch_positional [OF m, of demo_handler 0] by blast
  have two: "(2::nat) < length ?items" by simp
  have "fst (handle_one_item_impl demo_handler (ctx_cid ?ctx) (?items ! 2) (ctx_orig_message ?ctx)
                 (snd (handle demo_handler (?ctx\<lparr>ctx_message := JArr (take 2 ?items)\<rparr>) 0)))
            = Inr (out ! 2)"
    using all two by blast
  then have "fst (handle_one_item_impl demo_handler ''c1'' (demo_request ''2.0'' ''a'') (JStr ''raw'')
          (snd (handle demo_handler
             \<lparr>ctx_cid = ''c1'', ctx_orig_message = JStr ''raw'',
              ctx_message = JArr [demo_request ''1.0'' ''a'', demo_notification ''2.0'' ''a'']\<rparr>
             0))) = Inr (out ! 2)"
    by (simp add: numeral_2_eq_2)
  with h len show ?thesis by auto
qed

text \<open>
  Claim C2. Whatever the message, the correlation id, the original message and the
  collaborators, \<open>_handle_one_item\<close> and \<open>handle\<close> return and let no exception out;
  an exception raised inside the \<open>try\<close> block becomes an envelope that carries an
  error built from an \<open>ErrorCtx\<close> with the correlation id.
\<close>

theorem handle_contains_failures:
  "(\<exists>r s'. handle_one_item_impl self cid message orig s = (Inr r, s'))
   \<and> (\<exists>r s'. handle self ctx s = (Inr r, s'))
   \<and> (\<forall>e out s'. handle_one_item_try self cid message orig s = (Inl e, out, s') \<longrightarrow>
         (\<exists>d err. handle_one_item_impl self cid message orig s = (Inr (Some d), s')
            \<and> rd_error d = Some err \<and> rd_result d = None
            \<and> ed_data_ctx_cid err = cid))"
proof (intro conjI allI impI)
  show "\<exists>r s'. handle_one_item_impl self cid message orig s = (Inr r, s')"
    by (rule impl_returns)
  show "\<exists>r s'. handle self ctx s = (Inr r, s')"
    by (rule handle_returns)
next
  fix e out s'
  assume "handle_one_item_try self cid message orig s = (Inl e, out, s')"
  then show "\<exists>d err. handle_one_item_impl self cid message orig s = (Inr (Some d), s')
            \<and> rd_error d = Some err \<and> rd_result d = None \<and> ed_data_ctx_cid err = cid"
    by (simp add: impl_of_try_failure)
qed

text \<open>
  The theorem at a request whose backend raises, and at a message that is a number.
\<close>

theorem handle_contains_failures_witness:
  "(\<exists>d err. handle_one_item_impl demo_handler ''c2'' (demo_request ''2.0'' ''boom'')
        (JStr ''raw'') 0 = (Inr (Some d), 1)
      \<and> rd_error d = Some err \<and> rd_result d = None \<and> ed_data_ctx_cid err = ''c2'')
   \<and> (\<exists>r s'. handle demo_handler
        \<lparr>ctx_cid = ''c2'', ctx_orig_message = JStr ''raw'', ctx_message = JInt 5\<rparr> 0
          = (Inr r, s'))"
proof -
  let ?ctx = "\<lparr>ctx_cid = ''c2'', ctx_orig_message = JStr ''raw'', ctx_message = JInt 5\<rparr>"
  have t: "handle_one_item_try demo_handler ''c2'' (demo_request ''2.0'' ''boom'') (JStr ''raw'') 0
      = (Inl (OtherException ''disk /dev/sda1 is full''),
         ItemResponse_init\<lparr>resp_id := IdValue (JInt 7)\<rparr>, 1)"
    by (simp add: handler_defs demo_defs)
  note all = handle_contains_failures [of demo_handler "''c2''" "demo_request ''2.0'' ''boom''"
      "JStr ''raw''" 0 ?ctx]
  from all t have "\<exists>d err. handle_one_item_impl demo_handler ''c2'' (demo_request ''2.0'' ''boom'')
        (JStr ''raw'') 0 = (Inr (Some d), 1)
      \<and> rd_error d = Some err \<and> rd_result d = None \<and> ed_data_ctx_cid err = ''c2''"
    by blast
  moreover from all have "\<exists>r s'. handle demo_handler ?ctx 0 = (Inr r, s')"
    by blast
  ultimately show ?thesis by blast
qed

text \<open>
  Claim C3, as amended. When the version and the whitelist checks pass and the backend
  raises, the envelope carries the code of the exception if it is a
  \<open>JSONRPCException\<close>, and the fallback code -32000 with the fixed message otherwise.
  The code -32603 appears only when the backend itself raises \<open>InternalError\<close>.
\<close>

theorem backend_failure_code:
  assumes "dict_get kvs ''jsonrpc'' = JStr ''2.0''"
    and "can_handle self (dict_get kvs ''method'') = Inr True"
    and "invoke_func self (dict_get kvs ''method'') (dict_get kvs ''params'') s = (Inl e, s')"
  shows "handle_one_item_impl self cid (JObj kvs) orig s =
     (Inr (Some \<lparr>rd_jsonrpc = ''2.0'',
        rd_id = (case map_of kvs ''id'' of None \<Rightarrow> NotGiven | Some v \<Rightarrow> IdValue v),
        rd_result = None,
        rd_error = Some
          \<lparr>ed_code = (case e of JSONRPCException c m \<Rightarrow> c | _ \<Rightarrow> - 32000),
           ed_message = (case e of JSONRPCException c m \<Rightarrow> m
                         | _ \<Rightarrow> Text ''Message could not be handled''),
           ed_data_ctx_cid = cid\<rparr>\<rparr>), s')"
proof -
  have t: "handle_one_item_try self cid (JObj kvs) orig s =
      (Inl e, ItemResponse_init\<lparr>resp_id :=
         (case map_of kvs ''id'' of None \<Rightarrow> NotGiven | Some v \<Rightarrow> IdValue v)\<rparr>, s')"
    using try_invoked [OF assms, of cid orig] by simp
  show ?thesis
    using impl_of_try_failure [OF t] by simp
qed

text \<open>
  Claim C3 as it is written fails: a whitelisted method whose backend raises an
  exception of no JSON-RPC kind is answered with the code -32000, not -32603.
\<close>

theorem backend_failure_code_counterexample:
  "error_code_of (fst (handle_one_item_impl demo_handler ''c3'' (demo_request ''2.0'' ''boom'')
      (JStr ''raw'') 0)) = Some (- 32000)
   \<and> error_code_of (fst (handle_one_item_impl demo_handler ''c3'' (demo_request ''2.0'' ''boom'')
      (JStr ''raw'') 0)) \<noteq> Some (- 32603)"
  by (simp add: error_code_of_def handler_defs demo_defs)

text \<open>
  The amended statement at two requests: the backend raises an unrecognised exception
  for one and \<open>InternalError\<close> for the other.
\<close>

theorem backend_failure_code_witness:
  "handle_one_item_impl demo_handler ''c3'' (demo_request ''2.0'' ''boom'') (JStr ''raw'') 0 =
     (Inr (Some \<lparr>rd_jsonrpc = ''2.0'', rd_id = IdValue (JInt 7), rd_result = None,
        rd_error = Some \<lparr>ed_code = - 32000, ed_message = Text ''Message could not be handled'',
                         ed_data_ctx_cid = ''c3''\<rparr>\<rparr>), 1)
   \<and> handle_one_item_impl demo_handler ''c3'' (demo_request ''2.0'' ''internal'') (JStr ''raw'') 0 =
     (Inr (Some \<lparr>rd_jsonrpc = ''2.0'', rd_id = IdValue (JInt 7), rd_result = None,
        rd_error = Some \<lparr>ed_code = - 32603, ed_message = Text ''no such table'',
                         ed_data_ctx_cid = ''c3''\<rparr>\<rparr>), 1)"
proof -
  let ?boom = "[(''jsonrpc'', JStr ''2.0''), (''method'', JStr ''boom''), (''id'', JInt 7)]"
  let ?int = "[(''jsonrpc'', JStr ''2.0''), (''method'', JStr ''internal''), (''id'', JInt 7)]"
  have v1: "dict_get ?boom ''jsonrpc'' = JStr ''2.0''" by (simp add: dict_get_def)
  have w1: "can_handle demo_handler (dict_get ?boom ''method'') = Inr True"
    by (simp add: dict_get_def can_handle_def demo_defs)
  have i1: "invoke_func demo_handler (dict_get ?boom ''method'') (dict_get ?boom ''params'') 0
      = (Inl (OtherException ''disk /dev/sda1 is full''), 1)"
    by (simp add: dict_get_def demo_defs)
  have v2: "dict_get ?int ''jsonrpc'' = JStr ''2.0''" by (simp add: dict_get_def)
  have w2: "can_handle demo_handler (dict_get ?int ''method'') = Inr True"
    by (simp add: dict_get_def can_handle_def demo_defs)
  have i2: "invoke_func demo_handler (dict_get ?int ''method'') (dict_get ?int ''params'') 0
      = (Inl (JSONRPCException (- 32603) (Text ''no such table'')), 1)"
    by (simp add: dict_get_def demo_defs)
  show ?thesis
    using backend_failure_code [OF v1 w1 i1, of "''c3''" "JStr ''raw''"]
      backend_failure_code [OF v2 w2 i2, of "''c3''" "JStr ''raw''"]
    by (simp add: demo_request_def)
qed

text \<open>
  Claim C4. Every exception raised while an item is handled that is not a
  \<open>JSONRPCException\<close> yields the envelope with the code -32000 and the fixed message
  \<open>Message could not be handled\<close>. The envelope is written out in full: nothing of the
  exception occurs in it.
\<close>

theorem unrecognised_failure_generic:
  assumes "handle_one_item_try self cid message orig s = (Inl e, out, s')"
    and "\<not> is_JSONRPCException e"
  shows "handle_one_item_impl self cid message orig s =
     (Inr (Some \<lparr>rd_jsonrpc = ''2.0'', rd_id = resp_id out, rd_result = None,
        rd_error = Some \<lparr>ed_code = - 32000, ed_message = Text ''Message could not be handled'',
                         ed_data_ctx_cid = cid\<rparr>\<rparr>), s')"
  using impl_of_try_failure [OF assms(1)] assms(2) by (cases e) simp_all

text \<open>
  The theorem at a request whose backend raises with a text of its own.
\<close>

theorem unrecognised_failure_generic_witness:
  "handle_one_item_impl demo_handler ''c4'' (demo_request ''2.0'' ''boom'') (JStr ''raw'') 0 =
     (Inr (Some \<lparr>rd_jsonrpc = ''2.0'', rd_id = IdValue (JInt 7), rd_result = None,
        rd_error = Some \<lparr>ed_code = - 32000, ed_message = Text ''Message could not be handled'',
                         ed_data_ctx_cid = ''c4''\<rparr>\<rparr>), 1)"
proof -
  have t: "handle_one_item_try demo_handler ''c4'' (demo_request ''2.0'' ''boom'') (JStr ''raw'') 0
      = (Inl (OtherException ''disk /dev/sda1 is full''),
         ItemResponse_init\<lparr>resp_id := IdValue (JInt 7)\<rparr>, 1)"
    by (simp add: handler_defs demo_defs)
  have n: "\<not> is_JSONRPCException (OtherException ''disk /dev/sda1 is full'')" by simp
  show ?thesis using unrecognised_failure_generic [OF t n] by simp
qed

text \<open>
  Claim C5. A notification (no \<open>id\<close> key) whose version and method pass the checks and
  whose invocation returns yields \<open>None\<close>. An item whose \<open>try\<close> block raises always
  yields an envelope with an error, whether or not the item needs a response.
\<close>

theorem notification_silent_failure_reported:
  "(map_of kvs ''id'' = None \<and> dict_get kvs ''jsonrpc'' = JStr ''2.0''
      \<and> can_handle self (dict_get kvs ''method'') = Inr True
      \<and> invoke_func self (dict_get kvs ''method'') (dict_get kvs ''params'') s = (Inr v, s')
    \<longrightarrow> handle_one_item_impl self cid (JObj kvs) orig s = (Inr None, s'))
   \<and> (\<forall>e out s2. handle_one_item_try self cid message orig s = (Inl e, out, s2)
    \<longrightarrow> (\<exists>d err. handle_one_item_impl self cid message orig s = (Inr (Some d), s2)
          \<and> rd_error d = Some err \<and> rd_result d = None))"
proof (intro conjI impI allI)
  assume a: "map_of kvs ''id'' = None \<and> dict_get kvs ''jsonrpc'' = JStr ''2.0''
      \<and> can_handle self (dict_get kvs ''method'') = Inr True
      \<and> invoke_func self (dict_get kvs ''method'') (dict_get kvs ''params'') s = (Inr v, s')"
  then obtain out where
    t: "handle_one_item_try self cid (JObj kvs) orig s = (Inr None, out, s')"
    using try_invoked [of kvs self s "Inr v" s' cid orig] by (simp add: Let_def)
  show "handle_one_item_impl self cid (JObj kvs) orig s = (Inr None, s')"
    by (rule impl_of_try_success [OF t])
next
  fix e out s2
  assume "handle_one_item_try self cid message orig s = (Inl e, out, s2)"
  then show "\<exists>d err. handle_one_item_impl self cid message orig s = (Inr (Some d), s2)
          \<and> rd_error d = Some err \<and> rd_result d = None"
    by (simp add: impl_of_try_failure)
qed

text \<open>
  The theorem at a notification that succeeds and at one whose backend raises.
\<close>

theorem notification_silent_failure_reported_witness:
  "handle_one_item_impl demo_handler ''c5'' (demo_notification ''2.0'' ''a'') (JStr ''raw'') 0
     = (Inr None, 1)
   \<and> (\<exists>d err. handle_one_item_impl demo_handler ''c5'' (demo_notification ''2.0'' ''boom'')
          (JStr ''raw'') 0 = (Inr (Some d), 1)
        \<and> rd_error d = Some err \<and> rd_result d = None)"
proof -
  let ?a = "[(''jsonrpc'', JStr ''2.0''), (''method'', JStr ''a'')]"
  have p: "map_of ?a ''id'' = None \<and> dict_get ?a ''jsonrpc'' = JStr ''2.0''
      \<and> can_handle demo_handler (dict_get ?a ''method'') = Inr True
      \<and> invoke_func demo_handler (dict_get ?a ''method'') (dict_get ?a ''params'') 0
           = (Inr (JInt 42), 1)"
    by (simp add: dict_get_def can_handle_def demo_defs)
  have t: "handle_one_item_try demo_handler ''c5'' (demo_notification ''2.0'' ''boom'')
      (JStr ''raw'') 0
      = (Inl (OtherException ''disk /dev/sda1 is full''), ItemResponse_init\<lparr>resp_id := NotGiven\<rparr>, 1)"
    by (simp add: handler_defs demo_defs)
  have one: "handle_one_item_impl demo_handler ''c5'' (JObj ?a) (JStr ''raw'') 0 = (Inr None, 1)"
    using notification_silent_failure_reported [of ?a demo_handler 0 "JInt 42" 1 "''c5''" "JStr ''raw''"] p by blast
  have two: "\<exists>d err. handle_one_item_impl demo_handler ''c5'' (demo_notification ''2.0'' ''boom'')
          (JStr ''raw'') 0 = (Inr (Some d), 1)
        \<and> rd_error d = Some err \<and> rd_result d = None"
    using notification_silent_failure_reported [of "[]" demo_handler 0 JNull 0 "''c5''" "JStr ''raw''"
        "demo_notification ''2.0'' ''boom''"] t by blast
  from one two show ?thesis by (simp add: demo_notification_def)
qed

text \<open>
  Claim C6. A request object whose \<open>jsonrpc\<close> entry is not the string \<open>2.0\<close> is
  answered with an error envelope of code -32600, for every whitelist and every backend;
  the backend is not invoked, its state is unchanged.
\<close>

theorem unsupported_version_invalid_request:
  assumes "dict_get kvs ''jsonrpc'' \<noteq> JStr ''2.0''"
  shows "handle_one_item_impl self cid (JObj kvs) orig s =
     (Inr (Some \<lparr>rd_jsonrpc = ''2.0'',
        rd_id = (case map_of kvs ''id'' of None \<Rightarrow> NotGiven | Some v \<Rightarrow> IdValue v),
        rd_result = None,
        rd_error = Some
          \<lparr>ed_code = - 32600,
           ed_message = Format ''Unsupported JSON-RPC version `{}` in `{}`''
                          [dict_get kvs ''jsonrpc'', orig],
           ed_data_ctx_cid = cid\<rparr>\<rparr>), s)"
  using impl_of_try_failure [OF try_bad_version [OF assms, of self cid orig s]]
  by (simp add: InvalidRequest_def)

text \<open>
  The theorem at a request of version \<open>1.0\<close> for a whitelisted method.
\<close>

theorem unsupported_version_invalid_request_witness:
  "handle_one_item_impl demo_handler ''c6'' (demo_request ''1.0'' ''a'') (JStr ''raw'') 0 =
     (Inr (Some \<lparr>rd_jsonrpc = ''2.0'', rd_id = IdValue (JInt 7), rd_result = None,
        rd_error = Some
          \<lparr>ed_code = - 32600,
           ed_message = Format ''Unsupported JSON-RPC version `{}` in `{}`''
                          [JStr ''1.0'', JStr ''raw''],
           ed_data_ctx_cid = ''c6''\<rparr>\<rparr>), 0)"
proof -
  let ?kvs = "[(''jsonrpc'', JStr ''1.0''), (''method'', JStr ''a''), (''id'', JInt 7)]"
  have v: "dict_get ?kvs ''jsonrpc'' \<noteq> JStr ''2.0''" by (simp add: dict_get_def)
  show ?thesis
    using unsupported_version_invalid_request [OF v, of demo_handler "''c6''" "JStr ''raw''" 0]
    by (simp add: demo_request_def dict_get_def)
qed

text \<open>
  Claim C7. A single request object that has an \<open>id\<close> key is always answered with an
  envelope, and the \<open>id\<close> of the envelope is the one of the request, on the success
  path and on the failure path alike.
\<close>

theorem single_request_id_echoed:
  assumes "ctx_message ctx = JObj kvs" and "map_of kvs ''id'' = Some v"
  shows "\<exists>d s'. handle self ctx s = (Inr (One (Some d)), s') \<and> rd_id d = IdValue v"
proof (cases "handle_one_item_try self (ctx_cid ctx) (JObj kvs) (ctx_orig_message ctx) s")
  case (fields r out s')
  have idv: "resp_id out = IdValue v"
    using try_keeps_id [OF fields] assms(2) by simp
  show ?thesis
  proof (cases r)
    case (Inl e)
    with fields have
      "handle_one_item_try self (ctx_cid ctx) (JObj kvs) (ctx_orig_message ctx) s = (Inl e, out, s')"
      by simp
    from impl_of_try_failure [OF this] idv assms(1) show ?thesis
      by (simp add: handle_def handle_one_item_def)
  next
    case (Inr x)
    with fields have t:
      "handle_one_item_try self (ctx_cid ctx) (JObj kvs) (ctx_orig_message ctx) s = (Inr x, out, s')"
      by simp
    obtain d where "x = Some d" and "rd_id d = IdValue v"
      using try_with_id_envelope [OF t assms(2)] by blast
    with impl_of_try_success [OF t] assms(1) show ?thesis
      by (simp add: handle_def handle_one_item_def)
  qed
qed

text \<open>
  The theorem at a request with the identifier 7.
\<close>

theorem single_request_id_echoed_witness:
  "\<exists>d s'. handle demo_handler
       \<lparr>ctx_cid = ''c7'', ctx_orig_message = JStr ''raw'', ctx_message = demo_request ''2.0'' ''a''\<rparr> 0
     = (Inr (One (Some d)), s') \<and> rd_id d = IdValue (JInt 7)"
proof -
  let ?kvs = "[(''jsonrpc'', JStr ''2.0''), (''method'', JStr ''a''), (''id'', JInt 7)]"
  let ?ctx = "\<lparr>ctx_cid = ''c7'', ctx_orig_message = JStr ''raw'', ctx_message = JObj ?kvs\<rparr>"
  have m: "ctx_message ?ctx = JObj ?kvs" by simp
  have i: "map_of ?kvs ''id'' = Some (JInt 7)" by simp
  show ?thesis
    using single_request_id_echoed [OF m i, of demo_handler 0] by (simp add: demo_request_def)
qed

text \<open>
  Claim C8. A failing request without an \<open>id\<close> key: the envelope's \<open>id\<close> is the marker
  \<open>NotGiven\<close> that \<open>from_dict\<close> put into the item, not \<open>None\<close>.
\<close>

theorem failing_notification_id_is_marker:
  "handle_one_item_impl demo_handler ''c8'' (demo_notification ''1.0'' ''a'') (JStr ''raw'') 0 =
     (Inr (Some \<lparr>rd_jsonrpc = ''2.0'', rd_id = NotGiven, rd_result = None,
        rd_error = Some
          \<lparr>ed_code = - 32600,
           ed_message = Format ''Unsupported JSON-RPC version `{}` in `{}`''
                          [JStr ''1.0'', JStr ''raw''],
           ed_data_ctx_cid = ''c8''\<rparr>\<rparr>), 0)"
  by (simp add: handler_defs demo_defs)

text \<open>
  Claim C9, as amended. When the checks pass and the backend returns a falsy value, a
  request with an \<open>id\<close> key is answered with an error envelope of code -32000 and no
  result; a notification yields \<open>None\<close>, as every notification whose invocation
  returns does.
\<close>

theorem falsy_result_outcome:
  assumes "dict_get kvs ''jsonrpc'' = JStr ''2.0''"
    and "can_handle self (dict_get kvs ''method'') = Inr True"
    and "invoke_func self (dict_get kvs ''method'') (dict_get kvs ''params'') s = (Inr v, s')"
    and "\<not> py_truthy v"
  shows "handle_one_item_impl self cid (JObj kvs) orig s =
     (case map_of kvs ''id'' of
        None \<Rightarrow> (Inr None, s')
      | Some i \<Rightarrow>
          (Inr (Some \<lparr>rd_jsonrpc = ''2.0'', rd_id = IdValue i, rd_result = None,
             rd_error = Some \<lparr>ed_code = - 32000,
                              ed_message = Text ''Message could not be handled'',
                              ed_data_ctx_cid = cid\<rparr>\<rparr>), s'))"
proof (cases "map_of kvs ''id''")
  case None
  then obtain out where
    t: "handle_one_item_try self cid (JObj kvs) orig s = (Inr None, out, s')"
    using try_invoked [OF assms(1,2,3), of cid orig] by (simp add: Let_def)
  show ?thesis
    using impl_of_try_success [OF t] None by simp
next
  case (Some i)
  have t: "handle_one_item_try self cid (JObj kvs) orig s =
      (Inl (AttributeError ''to_dict''),
       ItemResponse_init\<lparr>resp_id := IdValue i, resp_result := v\<rparr>, s')"
    using try_invoked [OF assms(1,2,3), of cid orig] Some assms(4)
    by (simp add: Let_def to_dict_def ItemResponse_init_def)
  show ?thesis
    using impl_of_try_failure [OF t] Some by simp
qed

text \<open>
  Claim C9 as it is written fails for notifications: with a backend that returns 0 the
  notification yields \<open>None\<close> and no error envelope.
\<close>

theorem falsy_result_notification_counterexample:
  "handle_one_item_impl demo_handler ''c9'' (demo_notification ''2.0'' ''zero'') (JStr ''raw'') 0
     = (Inr None, 1)
   \<and> error_code_of (fst (handle_one_item_impl demo_handler ''c9''
        (demo_notification ''2.0'' ''zero'') (JStr ''raw'') 0)) \<noteq> Some (- 32000)"
  by (simp add: error_code_of_def handler_defs demo_defs)

text \<open>
  The amended statement at a request with an identifier whose backend returns 0.
\<close>

theorem falsy_result_outcome_witness:
  "handle_one_item_impl demo_handler ''c9'' (demo_request ''2.0'' ''zero'') (JStr ''raw'') 0 =
     (Inr (Some \<lparr>rd_jsonrpc = ''2.0'', rd_id = IdValue (JInt 7), rd_result = None,
        rd_error = Some \<lparr>ed_code = - 32000, ed_message = Text ''Message could not be handled'',
                         ed_data_ctx_cid = ''c9''\<rparr>\<rparr>), 1)"
proof -
  let ?kvs = "[(''jsonrpc'', JStr ''2.0''), (''method'', JStr ''zero''), (''id'', JInt 7)]"
  have v: "dict_get ?kvs ''jsonrpc'' = JStr ''2.0''" by (simp add: dict_get_def)
  have w: "can_handle demo_handler (dict_get ?kvs ''method'') = Inr True"
    by (simp add: dict_get_def can_handle_def demo_defs)
  have i: "invoke_func demo_handler (dict_get ?kvs ''method'') (dict_get ?kvs ''params'') 0
      = (Inr (JInt 0), 1)"
    by (simp add: dict_get_def demo_defs)
  have f: "\<not> py_truthy (JInt 0)" by simp
  show ?thesis
    using falsy_result_outcome [OF v w i f, of "''c9''" "JStr ''raw''"] by (simp add: demo_request_def)
qed

section \<open>Claims about the user search\<close>

lemma columns_allowed_missing:
  "getattr OrderBy_init ''columns_allowed'' = Inl (AttributeError ''columns_allowed'')"
  by (simp add: getattr_def OrderBy_init_def)

lemma order_by_loop_raises:
  "\<exists>e. get_order_by_loop OrderBy_init (item # rest) out = Inl e"
  by (cases item) (auto simp: columns_allowed_missing split: list.splits)

lemma order_by_truthy_raises:
  assumes "py_truthy order_by"
  shows "\<exists>e. get_order_by SSOSearch_init order_by = Inl e"
proof (cases "py_iter order_by")
  case (Inl e)
  then show ?thesis by (simp add: get_order_by_def)
next
  case (Inr items)
  with assms have "items \<noteq> []"
    by (cases order_by) (auto simp: py_iter_def)
  then obtain x xs where "items = x # xs" by (cases items) auto
  with Inr order_by_loop_raises [of x xs "[]"] show ?thesis
    by (auto simp: get_order_by_def SSOSearch_init_def)
qed

lemma order_by_single_pair:
  "get_order_by SSOSearch_init (JArr (JObj [(column, dir)] # rest))
     = Inl (AttributeError ''columns_allowed'')"
  by (simp add: get_order_by_def py_iter_def SSOSearch_init_def dict_items_def dict_get_def
      columns_allowed_missing)

lemma search_truthy_raises:
  assumes "py_truthy (dict_get config ''order_by'')"
  shows "\<exists>e. search get_where util_search SSOSearch_init session config = Inl e"
proof (cases "get_where config")
  case (Inl e)
  then show ?thesis by (simp add: search_def)
next
  case (Inr w)
  obtain e where "get_order_by SSOSearch_init (dict_get config ''order_by'') = Inl e"
    using order_by_truthy_raises [OF assms] by blast
  with Inr assms show ?thesis by (simp add: search_def)
qed

text \<open>
  With an attribute \<open>columns_allowed\<close> the same loop builds the clause: the failure
  below comes from the attribute that \<open>OrderBy.__init__\<close> never assigns.
\<close>

lemma order_by_with_columns_allowed:
  "get_order_by_loop ((''columns_allowed'', ASet [''username'']) # OrderBy_init)
     [JObj [(''username'', JStr ''desc'')]] [] = Inr [Desc ''username'']"
  by (simp add: dict_items_def dict_get_def getattr_def OrderBy_init_def py_in_def py_eq_attr_def)

text \<open>
  Claim C10. With a non-empty \<open>order_by\<close> list in the configuration \<open>search\<close> raises,
  whatever \<open>_get_where\<close> and \<open>util_search\<close> do; for an item that is a dictionary of
  one pair the exception of \<open>_get_order_by\<close> is the \<open>AttributeError\<close> for
  \<open>columns_allowed\<close>. Hence a call of \<open>search\<close> that returns had no \<open>order_by\<close>, or
  a falsy one.
\<close>

theorem search_order_by_raises:
  "(\<forall>item items. dict_get config ''order_by'' = JArr (item # items) \<longrightarrow>
       (\<exists>e. search get_where util_search SSOSearch_init session config = Inl e))
   \<and> get_order_by SSOSearch_init (JArr (JObj [(column, dir)] # rest))
       = Inl (AttributeError ''columns_allowed'')
   \<and> (\<forall>q. search get_where util_search SSOSearch_init session config = Inr q \<longrightarrow>
         \<not> py_truthy (dict_get config ''order_by''))"
proof (intro conjI allI impI)
  fix item items
  assume "dict_get config ''order_by'' = JArr (item # items)"
  then have "py_truthy (dict_get config ''order_by'')" by simp
  then show "\<exists>e. search get_where util_search SSOSearch_init session config = Inl e"
    by (rule search_truthy_raises)
next
  show "get_order_by SSOSearch_init (JArr (JObj [(column, dir)] # rest))
       = Inl (AttributeError ''columns_allowed'')"
    by (rule order_by_single_pair)
next
  fix q
  assume ok: "search get_where util_search SSOSearch_init session config = Inr q"
  show "\<not> py_truthy (dict_get config ''order_by'')"
  proof
    assume "py_truthy (dict_get config ''order_by'')"
    then obtain e where "search get_where util_search SSOSearch_init session config = Inl e"
      using search_truthy_raises [of config get_where util_search session] by blast
    with ok show False by simp
  qed
qed

text \<open>
  The theorem at a configuration that orders by user name, and at the empty
  configuration, which gets the default ordering.
\<close>

theorem search_order_by_raises_witness:
  "(\<exists>e. search (\<lambda>c. Inr ()) (\<lambda>c n ob w. Inr ob) SSOSearch_init ()
          [(''order_by'', JArr [JObj [(''username'', JStr ''desc'')]])] = Inl e)
   \<and> search (\<lambda>c. Inr ()) (\<lambda>c n ob w. Inr ob) SSOSearch_init () []
       = Inr (ATuple [Asc ''display_name'', Asc ''username'', Asc ''sign_up_time'', Asc ''user_id''])
   \<and> \<not> py_truthy (dict_get [] ''order_by'')"
proof -
  let ?gw = "\<lambda>c :: (string \<times> json) list. (Inr () :: py_exception + unit)"
  let ?us = "\<lambda>(c :: (string \<times> json) list) (n :: unit) (ob :: py_attr) (w :: unit).
               (Inr ob :: py_exception + py_attr)"
  let ?cfg = "[(''order_by'', JArr [JObj [(''username'', JStr ''desc'')]])]"
  have ob: "dict_get ?cfg ''order_by'' = JArr (JObj [(''username'', JStr ''desc'')] # [])"
    by (simp add: dict_get_def)
  have ok: "search ?gw ?us SSOSearch_init () []
       = Inr (ATuple [Asc ''display_name'', Asc ''username'', Asc ''sign_up_time'', Asc ''user_id''])"
    by (simp add: search_def dict_get_def getattr_def SSOSearch_init_def OrderBy_init_def)
  have one: "\<exists>e. search ?gw ?us SSOSearch_init () ?cfg = Inl e"
    using search_order_by_raises [of ?cfg ?gw ?us "()"] ob by blast
  have two: "\<not> py_truthy (dict_get [] ''order_by'')"
    using search_order_by_raises [of "[]" ?gw ?us "()"] ok by blast
  from one ok two show ?thesis by blast
qed

end
